theory Spec2Isabelle
  imports Complex_Main
begin

section \<open>Python values\<close>

text \<open>
  The ledger program (\<^verbatim>\<open>main.py\<close>) keeps a list of dictionaries in one JSON file.
  The values that occur as fields of a record are the JSON scalars. The numbers of
  Python (\<^verbatim>\<open>int\<close> and \<^verbatim>\<open>float\<close> together) are the values of a type \<open>'n\<close> of
  which nothing is known but that it has the numbers \<open>0\<close> and \<open>1\<close> and the two
  operations \<open>+\<close> and \<open>-\<close>, which stand for Python's \<^verbatim>\<open>+\<close> and \<^verbatim>\<open>-\<close> on numbers.
  No law of arithmetic is assumed of them, so what is proved holds for the rounding
  arithmetic of \<^verbatim>\<open>float\<close> as it holds for exact arithmetic. Two numbers are the same
  value of \<open>'n\<close> when Python's \<^verbatim>\<open>==\<close> holds of them (\<^verbatim>\<open>1\<close> and \<^verbatim>\<open>1.0\<close> are one
  number); the NaN, which is not equal to itself, is outside the model.
  A Python \<^verbatim>\<open>str\<close> is represented by its UTF-8 bytes.
\<close>

datatype 'n pyval = PNone | PBool bool | PNum 'n | PStr string

text \<open>
  A \<^verbatim>\<open>Dict[str, Any]\<close> is an association list in insertion order, which is the order
  in which \<^verbatim>\<open>items()\<close> yields its pairs.
\<close>

type_synonym 'n pydict = "(string \<times> 'n pyval) list"

datatype error = KeyError string | TypeError | JSONDecodeError

text \<open>\<^verbatim>\<open>d[key]\<close>: a missing key raises \<^verbatim>\<open>KeyError\<close>.\<close>

definition getitem :: "'n pydict \<Rightarrow> string \<Rightarrow> error + 'n pyval" where
  "getitem d key = (case map_of d key of None \<Rightarrow> Inl (KeyError key) | Some v \<Rightarrow> Inr v)"

text \<open>The numeric value of a number; \<^verbatim>\<open>bool\<close> is a subclass of \<^verbatim>\<open>int\<close>.\<close>

fun as_number :: "'n::{zero,one} pyval \<Rightarrow> 'n option" where
  "as_number (PBool b) = Some (if b then 1 else 0)"
| "as_number (PNum x) = Some x"
| "as_number PNone = None"
| "as_number (PStr s) = None"

text \<open>\<^verbatim>\<open>a == b\<close> on scalars: numbers by value, strings by content; it never raises.\<close>

definition py_eq :: "'n::{zero,one} pyval \<Rightarrow> 'n pyval \<Rightarrow> bool" where
  "py_eq a b =
     (case (as_number a, as_number b) of
        (Some x, Some y) \<Rightarrow> x = y
      | _ \<Rightarrow>
        (case (a, b) of
           (PStr s, PStr t) \<Rightarrow> s = t
         | (PNone, PNone) \<Rightarrow> True
         | _ \<Rightarrow> False))"

text \<open>\<^verbatim>\<open>a + b\<close> and \<^verbatim>\<open>a - b\<close>: on two numbers the operation of \<open>'n\<close>; a number
  with a string or with \<^verbatim>\<open>None\<close> raises \<^verbatim>\<open>TypeError\<close>.\<close>

definition py_add :: "'n::{zero,one,plus} pyval \<Rightarrow> 'n pyval \<Rightarrow> error + 'n pyval" where
  "py_add a b =
     (case (as_number a, as_number b) of
        (Some x, Some y) \<Rightarrow> Inr (PNum (x + y))
      | _ \<Rightarrow>
        (case (a, b) of
           (PStr s, PStr t) \<Rightarrow> Inr (PStr (s @ t))
         | _ \<Rightarrow> Inl TypeError))"

definition py_sub :: "'n::{zero,one,minus} pyval \<Rightarrow> 'n pyval \<Rightarrow> error + 'n pyval" where
  "py_sub a b =
     (case (as_number a, as_number b) of
        (Some x, Some y) \<Rightarrow> Inr (PNum (x - y))
      | _ \<Rightarrow> Inl TypeError)"

text \<open>
  A generator expression is the list of its items in the order in which they are
  produced; an item is \<open>Inl e\<close> when computing it raises \<open>e\<close>. The built-ins
  \<^verbatim>\<open>all\<close> and \<^verbatim>\<open>sum\<close> consume the items from the left: \<^verbatim>\<open>all\<close> stops at the
  first false item, and both stop at the first item that raises. \<^verbatim>\<open>sum\<close> starts
  from the integer 0 and adds each item to the total with \<^verbatim>\<open>+\<close>, as its
  documentation says and as the interpreter does up to Python 3.11; from Python 3.12
  on the interpreter adds floats with a compensated algorithm, whose total can differ
  from this one in the last digits.
\<close>

fun py_all :: "(error + bool) list \<Rightarrow> error + bool" where
  "py_all [] = Inr True"
| "py_all (Inl e # items) = Inl e"
| "py_all (Inr b # items) = (if b then py_all items else Inr False)"

fun py_sum_from ::
  "'n::{zero,one,plus} pyval \<Rightarrow> (error + 'n pyval) list \<Rightarrow> error + 'n pyval" where
  "py_sum_from acc [] = Inr acc"
| "py_sum_from acc (Inl e # items) = Inl e"
| "py_sum_from acc (Inr v # items) =
     (case py_add acc v of Inl e \<Rightarrow> Inl e | Inr acc' \<Rightarrow> py_sum_from acc' items)"

definition py_sum :: "(error + 'n::{zero,one,plus} pyval) list \<Rightarrow> error + 'n pyval" where
  "py_sum items = py_sum_from (PNum 0) items"

section \<open>DataFormat\<close>

record 'n DataFormat =
  date :: string
  category :: string
  amount :: 'n
  description :: string

definition dictionary :: "'n DataFormat \<Rightarrow> 'n pydict" where
  "dictionary self =
     [(''date'', PStr (date self)),
      (''category'', PStr (category self)),
      (''amount'', PNum (amount self)),
      (''description'', PStr (description self))]"

section \<open>The file and the json module\<close>

text \<open>
  The file is identified with the JSON document it holds: the characters that
  \<^verbatim>\<open>json.dump\<close> writes (indentation, escapes, number literals) are not modelled. A file
  that exists holds either a JSON array of objects, each object being the list of its
  members in the order of the text, or text that \<^verbatim>\<open>json.load\<close> rejects. JSON of
  another shape is excluded by the type \<^verbatim>\<open>List[Dict[str, Any]]\<close> that the source
  gives to the records, and failures of \<^verbatim>\<open>open\<close> and of writing are outside the
  model.
\<close>

datatype 'n filedata = Malformed | Json "(string \<times> 'n pyval) list list"

type_synonym 'n filesystem = "string \<rightharpoonup> 'n filedata"

text \<open>\<^verbatim>\<open>d[key] = value\<close>: a key that is present keeps its place and takes the new
  value, a new key goes to the end.\<close>

fun dict_setitem :: "'n pydict \<Rightarrow> string \<times> 'n pyval \<Rightarrow> 'n pydict" where
  "dict_setitem d (key, v) =
     (if key \<in> fst ` set d
      then map (\<lambda>(k, w). if k = key then (k, v) else (k, w)) d
      else d @ [(key, v)])"

text \<open>\<^verbatim>\<open>json.load\<close> builds the dictionary of an object by storing its members one
  after the other, so of two members with one name the later value is kept;
  \<^verbatim>\<open>json.dump\<close> writes the items of a dictionary in their order.\<close>

definition dict_of_members :: "(string \<times> 'n pyval) list \<Rightarrow> 'n pydict" where
  "dict_of_members members = foldl dict_setitem [] members"

definition json_load :: "'n filedata \<Rightarrow> error + 'n pydict list" where
  "json_load content =
     (case content of
        Malformed \<Rightarrow> Inl JSONDecodeError
      | Json objects \<Rightarrow> Inr (map dict_of_members objects))"

definition json_dump :: "'n pydict list \<Rightarrow> 'n filedata" where
  "json_dump records = Json records"

section \<open>DataControl\<close>

record DataControl =
  filename :: string

text \<open>Every method takes the file system and returns its result with the file system
  it leaves behind.\<close>

definition read_file ::
  "DataControl \<Rightarrow> 'n filesystem \<Rightarrow> (error + 'n pydict list) \<times> 'n filesystem" where
  "read_file self fs =
     (case fs (filename self) of
        Some content \<Rightarrow> (json_load content, fs)
      | None \<Rightarrow> (Inr [], fs))"

definition save_records ::
  "DataControl \<Rightarrow> 'n pydict list \<Rightarrow> 'n filesystem \<Rightarrow> 'n filesystem" where
  "save_records self records fs = fs(filename self \<mapsto> json_dump records)"

definition add_record ::
  "DataControl \<Rightarrow> 'n DataFormat \<Rightarrow> 'n filesystem \<Rightarrow> (error + unit) \<times> 'n filesystem" where
  "add_record self record fs =
     (case read_file self fs of
        (Inl e, fs1) \<Rightarrow> (Inl e, fs1)
      | (Inr records, fs1) \<Rightarrow> (Inr (), save_records self (records @ [dictionary record]) fs1))"

definition update_record ::
  "DataControl \<Rightarrow> int \<Rightarrow> 'n DataFormat \<Rightarrow> 'n filesystem
     \<Rightarrow> (error + bool) \<times> 'n filesystem" where
  "update_record self index updated_record fs =
     (case read_file self fs of
        (Inl e, fs1) \<Rightarrow> (Inl e, fs1)
      | (Inr records, fs1) \<Rightarrow>
          if 0 \<le> index \<and> index < int (length records)
          then (Inr True,
                save_records self (records[nat index := dictionary updated_record]) fs1)
          else (Inr False, fs1))"

text \<open>The generator \<^verbatim>\<open>record[key] == value for key, value in search_criteria.items()\<close>.\<close>

definition criteria_items ::
  "'n::{zero,one} pydict \<Rightarrow> 'n pydict \<Rightarrow> (error + bool) list" where
  "criteria_items record search_criteria =
     map (\<lambda>(key, value).
            case getitem record key of Inl e \<Rightarrow> Inl e | Inr v \<Rightarrow> Inr (py_eq v value))
         search_criteria"

text \<open>The loop of \<^verbatim>\<open>search_records\<close> over the records, with \<^verbatim>\<open>matching_records\<close>
  as its accumulator.\<close>

fun search_loop ::
  "'n::{zero,one} pydict \<Rightarrow> 'n pydict list \<Rightarrow> 'n pydict list \<Rightarrow> error + 'n pydict list" where
  "search_loop search_criteria matching_records [] = Inr matching_records"
| "search_loop search_criteria matching_records (record # records) =
     (case py_all (criteria_items record search_criteria) of
        Inl e \<Rightarrow> Inl e
      | Inr b \<Rightarrow>
          if b then search_loop search_criteria (matching_records @ [record]) records
          else search_loop search_criteria matching_records records)"

definition search_records ::
  "DataControl \<Rightarrow> 'n::{zero,one} pydict \<Rightarrow> 'n filesystem
     \<Rightarrow> (error + 'n pydict list) \<times> 'n filesystem" where
  "search_records self search_criteria fs =
     (case read_file self fs of
        (Inl e, fs1) \<Rightarrow> (Inl e, fs1)
      | (Inr records, fs1) \<Rightarrow> (search_loop search_criteria [] records, fs1))"

section \<open>Main.display\_balance\<close>

text \<open>The two category values of the source are the Russian words for income
  (\<^verbatim>\<open>Dohod\<close> in Latin letters) and for expense (\<^verbatim>\<open>Rashod\<close>), written in
  Cyrillic letters; they are given here by their UTF-8 bytes.\<close>

definition Dohod :: string where
  "Dohod = [CHR 0xD0, CHR 0x94, CHR 0xD0, CHR 0xBE, CHR 0xD1, CHR 0x85,
            CHR 0xD0, CHR 0xBE, CHR 0xD0, CHR 0xB4]"

definition Rashod :: string where
  "Rashod = [CHR 0xD0, CHR 0xA0, CHR 0xD0, CHR 0xB0, CHR 0xD1, CHR 0x81,
             CHR 0xD1, CHR 0x85, CHR 0xD0, CHR 0xBE, CHR 0xD0, CHR 0xB4]"

text \<open>The generator
  \<^verbatim>\<open>record['amount'] for record in records if record['category'] == c\<close>: the
  category of every record is read, the amount only of a record that passes the test.\<close>

definition amounts_where ::
  "string \<Rightarrow> 'n::{zero,one} pydict list \<Rightarrow> (error + 'n pyval) list" where
  "amounts_where c records =
     concat (map (\<lambda>record.
                    case getitem record ''category'' of
                      Inl e \<Rightarrow> [Inl e]
                    | Inr v \<Rightarrow> if py_eq v (PStr c) then [getitem record ''amount''] else [])
                 records)"

text \<open>\<^verbatim>\<open>UserInterface.actual_balance\<close> prints its three arguments in this order; the
  model keeps the values.\<close>

definition actual_balance ::
  "'n pyval \<Rightarrow> 'n pyval \<Rightarrow> 'n pyval \<Rightarrow> 'n pyval \<times> 'n pyval \<times> 'n pyval" where
  "actual_balance balance income expenses = (balance, income, expenses)"

record Main =
  data_manager :: DataControl

definition display_balance ::
  "Main \<Rightarrow> 'n::{zero,one,plus,minus} filesystem
     \<Rightarrow> (error + 'n pyval \<times> 'n pyval \<times> 'n pyval) \<times> 'n filesystem" where
  "display_balance self fs =
     (case read_file (data_manager self) fs of
        (Inl e, fs1) \<Rightarrow> (Inl e, fs1)
      | (Inr records, fs1) \<Rightarrow>
          (case py_sum (amounts_where Dohod records) of
             Inl e \<Rightarrow> (Inl e, fs1)
           | Inr income \<Rightarrow>
               (case py_sum (amounts_where Rashod records) of
                  Inl e \<Rightarrow> (Inl e, fs1)
                | Inr expenses \<Rightarrow>
                    (case py_sub income expenses of
                       Inl e \<Rightarrow> (Inl e, fs1)
                     | Inr balance \<Rightarrow> (Inr (actual_balance balance income expenses), fs1)))))"

section \<open>What the specification says\<close>

text \<open>A Python dictionary has no key twice.\<close>

definition is_dict :: "'n pydict \<Rightarrow> bool" where
  "is_dict d = distinct (map fst d)"

text \<open>A record matches the criteria when every key of the criteria is a field of the
  record whose value is equal to the value asked for.\<close>

definition spec_matches :: "'n::{zero,one} pydict \<Rightarrow> 'n pydict \<Rightarrow> bool" where
  "spec_matches criteria record =
     list_all (\<lambda>(key, value).
                 case map_of record key of None \<Rightarrow> False | Some v \<Rightarrow> py_eq v value)
              criteria"

text \<open>A stored dictionary holds a transaction when its four fields have the values of
  the transaction, in any order of the keys.\<close>

definition has_fields :: "'n pydict \<Rightarrow> 'n DataFormat \<Rightarrow> bool" where
  "has_fields r d =
     (map_of r ''date'' = Some (PStr (date d))
      \<and> map_of r ''category'' = Some (PStr (category d))
      \<and> map_of r ''amount'' = Some (PNum (amount d))
      \<and> map_of r ''description'' = Some (PStr (description d)))"


section \<open>A sample ledger\<close>

text \<open>The application as the script starts it, on the file
  \<^verbatim>\<open>financial_records.json\<close>, and three transactions: one of each category of the
  source, and one whose category is neither. Their amounts are whole numbers, on which
  exact arithmetic is the arithmetic of \<^verbatim>\<open>float\<close>.\<close>

definition app :: Main where
  "app = \<lparr>data_manager = \<lparr>filename = ''financial_records.json''\<rparr>\<rparr>"

definition salary :: "real DataFormat" where
  "salary = \<lparr>date = ''2024-01-01'', category = Dohod, amount = 100, description = ''salary''\<rparr>"

definition food :: "real DataFormat" where
  "food = \<lparr>date = ''2024-01-02'', category = Rashod, amount = 40, description = ''food''\<rparr>"

definition gift :: "real DataFormat" where
  "gift = \<lparr>date = ''2024-01-03'', category = ''Gift'', amount = 7, description = []\<rparr>"

definition ledger :: "'n pydict list \<Rightarrow> 'n filesystem" where
  "ledger records = Map.empty(''financial_records.json'' \<mapsto> Json records)"

section \<open>The arithmetic of float on whole numbers\<close>

text \<open>
  One arithmetic that rounds, on which the model can be run: the floats whose value is
  a whole number. A \<^verbatim>\<open>float\<close> has 53 significant bits, and the sum or difference of
  two floats is the exact result rounded to the nearest float, a tie going to the
  float whose last bit is 0. On whole numbers (overflow apart) that is \<open>round53\<close>
  of the exact result.
\<close>

fun bit_length :: "nat \<Rightarrow> nat" where
  "bit_length n = (if n = 0 then 0 else Suc (bit_length (n div 2)))"

definition round53 :: "int \<Rightarrow> int" where
  "round53 z =
     (let a = nat \<bar>z\<bar>;
          e = bit_length a - 53;
          q = a div 2 ^ e;
          r = a mod 2 ^ e;
          m = (if 2 ^ e < 2 * r \<or> (2 * r = 2 ^ e \<and> odd q) then q + 1 else q)
      in sgn z * int (m * 2 ^ e))"

datatype whole_float = Whole int

instantiation whole_float :: "{zero,one,plus,minus}"
begin

definition zero_whole_float :: whole_float where
  "zero_whole_float = Whole 0"

definition one_whole_float :: whole_float where
  "one_whole_float = Whole 1"

fun plus_whole_float :: "whole_float \<Rightarrow> whole_float \<Rightarrow> whole_float" where
  "plus_whole_float (Whole a) (Whole b) = Whole (round53 (a + b))"

fun minus_whole_float :: "whole_float \<Rightarrow> whole_float \<Rightarrow> whole_float" where
  "minus_whole_float (Whole a) (Whole b) = Whole (round53 (a - b))"

instance ..

end




section \<open>Dictionaries and the file\<close>

lemma map_fst_setitem:
  "map (fst \<circ> (\<lambda>(k, w). if k = key then (k, v) else (k, w))) d = map fst d"
  by (induction d) auto

lemma is_dict_setitem: "is_dict d \<Longrightarrow> is_dict (dict_setitem d kv)"
  by (cases kv) (auto simp: is_dict_def map_fst_setitem)

lemma is_dict_foldl: "is_dict d \<Longrightarrow> is_dict (foldl dict_setitem d members)"
  by (induction members arbitrary: d) (simp_all add: is_dict_setitem)

lemma is_dict_dict_of_members: "is_dict (dict_of_members members)"
  using is_dict_foldl [of "[]" members] by (simp add: dict_of_members_def is_dict_def)

lemma foldl_setitem_distinct:
  "distinct (map fst (d @ members)) \<Longrightarrow> foldl dict_setitem d members = d @ members"
proof (induction members arbitrary: d)
  case Nil
  then show ?case by simp
next
  case (Cons kv members)
  obtain k v where kv: "kv = (k, v)" by (cases kv)
  from Cons.prems have "k \<notin> fst ` set d" by (auto simp: kv)
  then have step: "dict_setitem d kv = d @ [kv]" by (simp add: kv)
  from Cons.prems have "distinct (map fst ((d @ [kv]) @ members))" by simp
  then have "foldl dict_setitem (d @ [kv]) members = (d @ [kv]) @ members"
    by (rule Cons.IH)
  with step show ?case by simp
qed

lemma dict_of_members_dict: "is_dict d \<Longrightarrow> dict_of_members d = d"
  using foldl_setitem_distinct [of "[]" d] by (simp add: dict_of_members_def is_dict_def)

lemma is_dict_dictionary: "is_dict (dictionary r)"
  by (simp add: is_dict_def dictionary_def)

lemma has_fields_dictionary: "has_fields (dictionary d) d"
  by (simp add: has_fields_def dictionary_def)

lemma read_file_fs: "snd (read_file self fs) = fs"
  by (simp add: read_file_def split: option.splits)

lemma read_file_pair: "fst (read_file self fs) = x \<Longrightarrow> read_file self fs = (x, fs)"
  using read_file_fs [of self fs] by (cases "read_file self fs") simp

lemma read_file_dicts:
  assumes "fst (read_file self fs) = Inr R"
  shows "list_all is_dict R"
proof (cases "fs (filename self)")
  case None
  with assms show ?thesis by (simp add: read_file_def)
next
  case (Some content)
  with assms have "json_load content = Inr R" by (simp add: read_file_def)
  then obtain objects where "R = map dict_of_members objects"
    by (auto simp: json_load_def split: filedata.splits)
  then show ?thesis by (simp add: list_all_iff is_dict_dict_of_members)
qed

lemma json_load_dump: "list_all is_dict R \<Longrightarrow> json_load (json_dump R) = Inr R"
  by (simp add: json_load_def json_dump_def list_all_iff dict_of_members_dict map_idI)

lemma read_after_save:
  "list_all is_dict R \<Longrightarrow>
   read_file self (save_records self R fs) = (Inr R, save_records self R fs)"
  by (simp add: read_file_def save_records_def json_load_dump)

lemma list_all_update: "list_all P xs \<Longrightarrow> P x \<Longrightarrow> list_all P (xs[i := x])"
  by (induction xs arbitrary: i) (auto split: nat.splits)

lemma read_ledger:
  "list_all is_dict R \<Longrightarrow> read_file (data_manager app) (ledger R) = (Inr R, ledger R)"
  using json_load_dump [of R]
  by (simp add: read_file_def ledger_def app_def json_dump_def)

text \<open>Of two members of an object with one name, the dictionary keeps the place of the
  first and the value of the second.\<close>

lemma json_load_keeps_last:
  "json_load (Json [[(''a'', PNum (1::int)), (''b'', PNum 2), (''a'', PNum 3)]])
     = Inr [[(''a'', PNum 3), (''b'', PNum 2)]]"
  by (simp add: json_load_def dict_of_members_def)

section \<open>Loading and saving\<close>

text \<open>C7: when the backing file does not exist, \<^verbatim>\<open>read_file\<close> returns the empty
  list, raises nothing and leaves the file system as it is.\<close>

theorem read_file_missing:
  "fs (filename self) = None \<Longrightarrow> read_file self fs = (Inr [], fs)"
  by (simp add: read_file_def)

theorem read_file_missing_witness:
  "Map.empty (filename (data_manager app)) = (None :: real filedata option)
   \<and> read_file (data_manager app) Map.empty = (Inr [], (Map.empty :: real filesystem))"
proof -
  have h: "Map.empty (filename (data_manager app)) = (None :: real filedata option)" by simp
  from read_file_missing [OF h] h show ?thesis by simp
qed

text \<open>C2: for every list of dictionaries \<open>R\<close>, reading the file after
  \<^verbatim>\<open>save_records\<close> has written \<open>R\<close> returns \<open>R\<close>, also when the file was read
  before the save.\<close>

theorem save_then_load:
  assumes "list_all is_dict R"
  shows "fst (read_file self (save_records self R fs)) = Inr R
       \<and> fst (read_file self (save_records self R (snd (read_file self fs)))) = Inr R"
  using assms by (simp add: read_after_save read_file_fs)

theorem save_then_load_witness:
  "list_all is_dict [dictionary salary, dictionary food]
   \<and> fst (read_file (data_manager app)
            (save_records (data_manager app) [dictionary salary, dictionary food] Map.empty))
       = Inr [dictionary salary, dictionary food]"
proof -
  have h: "list_all is_dict [dictionary salary, dictionary food]"
    by (simp add: is_dict_dictionary)
  from save_then_load [OF h, of "data_manager app" Map.empty] h show ?thesis by simp
qed

text \<open>C3: when the file holds \<open>R\<close>, \<^verbatim>\<open>add_record\<close> raises nothing and does what
  \<^verbatim>\<open>save_records\<close> does with \<open>R\<close> followed by the record; a read after it returns
  \<open>R\<close> followed by one dictionary, whose four items are the date, the category, the
  amount and the description of the record.\<close>

theorem add_record_appends:
  assumes "fst (read_file self fs) = Inr R"
  shows "add_record self r fs = (Inr (), save_records self (R @ [dictionary r]) fs)
       \<and> fst (read_file self (snd (add_record self r fs)))
           = Inr (R @ [[(''date'', PStr (date r)), (''category'', PStr (category r)),
                        (''amount'', PNum (amount r)),
                        (''description'', PStr (description r))]])
       \<and> has_fields (dictionary r) r"
proof -
  from assms have rd: "read_file self fs = (Inr R, fs)" by (rule read_file_pair)
  then have one: "add_record self r fs = (Inr (), save_records self (R @ [dictionary r]) fs)"
    by (simp add: add_record_def)
  from assms have "list_all is_dict R" by (rule read_file_dicts)
  then have "list_all is_dict (R @ [dictionary r])" by (simp add: is_dict_dictionary)
  then have "fst (read_file self (save_records self (R @ [dictionary r]) fs))
      = Inr (R @ [dictionary r])"
    by (simp add: read_after_save)
  with one have two: "fst (read_file self (snd (add_record self r fs)))
           = Inr (R @ [[(''date'', PStr (date r)), (''category'', PStr (category r)),
                        (''amount'', PNum (amount r)),
                        (''description'', PStr (description r))]])"
    by (simp add: dictionary_def)
  from one two show ?thesis by (simp add: has_fields_dictionary)
qed

theorem add_record_appends_witness:
  "fst (read_file (data_manager app) (ledger [dictionary salary])) = Inr [dictionary salary]
   \<and> fst (read_file (data_manager app)
            (snd (add_record (data_manager app) food (ledger [dictionary salary]))))
       = Inr [[(''date'', PStr ''2024-01-01''), (''category'', PStr Dohod),
               (''amount'', PNum 100), (''description'', PStr ''salary'')],
              [(''date'', PStr ''2024-01-02''), (''category'', PStr Rashod),
               (''amount'', PNum 40), (''description'', PStr ''food'')]]"
proof -
  have h: "fst (read_file (data_manager app) (ledger [dictionary salary]))
      = Inr [dictionary salary]"
    by (simp add: read_ledger is_dict_dictionary)
  have s: "dictionary salary
      = [(''date'', PStr ''2024-01-01''), (''category'', PStr Dohod),
         (''amount'', PNum 100), (''description'', PStr ''salary'')]"
    by (simp add: dictionary_def salary_def)
  from add_record_appends [OF h, of food, THEN conjunct2, THEN conjunct1] h s
  show ?thesis by (simp add: food_def)
qed

section \<open>Updating\<close>

text \<open>C4: when the file holds \<open>R\<close> and \<open>0 \<le> i < len(R)\<close>, \<^verbatim>\<open>update_record\<close>
  returns \<^verbatim>\<open>True\<close>, and the list read afterwards has the length of \<open>R\<close>, at
  position \<open>i\<close> the dictionary whose four items are the date, the category, the amount
  and the description of the new record, and the records of \<open>R\<close> at every other
  position.\<close>

theorem update_in_range:
  assumes "fst (read_file self fs) = Inr R" and "0 \<le> i" and "i < int (length R)"
  shows "\<exists>R'. fst (update_record self i r fs) = Inr True
            \<and> fst (read_file self (snd (update_record self i r fs))) = Inr R'
            \<and> length R' = length R
            \<and> R' ! nat i = dictionary r
            \<and> R' ! nat i = [(''date'', PStr (date r)), (''category'', PStr (category r)),
                            (''amount'', PNum (amount r)),
                            (''description'', PStr (description r))]
            \<and> has_fields (R' ! nat i) r
            \<and> (\<forall>j < length R. j \<noteq> nat i \<longrightarrow> R' ! j = R ! j)"
proof -
  let ?R' = "R[nat i := dictionary r]"
  from assms(1) have rd: "read_file self fs = (Inr R, fs)" by (rule read_file_pair)
  with assms(2,3) have upd: "update_record self i r fs = (Inr True, save_records self ?R' fs)"
    by (simp add: update_record_def)
  from assms(1) have "list_all is_dict R" by (rule read_file_dicts)
  then have "list_all is_dict ?R'" by (simp add: list_all_update is_dict_dictionary)
  then have "fst (read_file self (save_records self ?R' fs)) = Inr ?R'"
    by (simp add: read_after_save)
  with upd have a: "fst (update_record self i r fs) = Inr True"
    and b: "fst (read_file self (snd (update_record self i r fs))) = Inr ?R'"
    by simp_all
  from assms(2,3) have "nat i < length R" by linarith
  then have c: "?R' ! nat i = dictionary r" by simp
  then have c': "?R' ! nat i = [(''date'', PStr (date r)), (''category'', PStr (category r)),
                               (''amount'', PNum (amount r)),
                               (''description'', PStr (description r))]"
    by (simp add: dictionary_def)
  from c have c'': "has_fields (?R' ! nat i) r" by (simp add: has_fields_dictionary)
  have d: "\<forall>j < length R. j \<noteq> nat i \<longrightarrow> ?R' ! j = R ! j" by simp
  have e: "length ?R' = length R" by simp
  from a b c c' c'' d e show ?thesis by (intro exI [of _ ?R']) (intro conjI)
qed

theorem update_in_range_witness:
  "fst (read_file (data_manager app) (ledger [dictionary salary, dictionary food]))
     = Inr [dictionary salary, dictionary food]
   \<and> fst (update_record (data_manager app) 1 gift (ledger [dictionary salary, dictionary food]))
       = Inr True
   \<and> fst (read_file (data_manager app)
            (snd (update_record (data_manager app) 1 gift
                    (ledger [dictionary salary, dictionary food]))))
       = Inr [[(''date'', PStr ''2024-01-01''), (''category'', PStr Dohod),
               (''amount'', PNum 100), (''description'', PStr ''salary'')],
              [(''date'', PStr ''2024-01-03''), (''category'', PStr ''Gift''),
               (''amount'', PNum 7), (''description'', PStr [])]]"
proof -
  let ?fs = "ledger [dictionary salary, dictionary food]"
  have h: "fst (read_file (data_manager app) ?fs) = Inr [dictionary salary, dictionary food]"
    by (simp add: read_ledger is_dict_dictionary)
  have "(0::int) \<le> 1" and "(1::int) < int (length [dictionary salary, dictionary food])"
    by simp_all
  with h obtain R' where
    t: "fst (update_record (data_manager app) 1 gift ?fs) = Inr True"
    and rd: "fst (read_file (data_manager app)
               (snd (update_record (data_manager app) 1 gift ?fs))) = Inr R'"
    and len: "length R' = length [dictionary salary, dictionary food]"
    and new: "R' ! nat 1 = [(''date'', PStr (date gift)), (''category'', PStr (category gift)),
                            (''amount'', PNum (amount gift)),
                            (''description'', PStr (description gift))]"
    and old: "\<forall>j < length [dictionary salary, dictionary food].
                j \<noteq> nat 1 \<longrightarrow> R' ! j = [dictionary salary, dictionary food] ! j"
    using update_in_range [of "data_manager app" ?fs "[dictionary salary, dictionary food]" 1 gift]
    by blast
  from len obtain a b where R': "R' = [a, b]"
    by (auto simp: length_Suc_conv)
  from new R' have "b = [(''date'', PStr ''2024-01-03''), (''category'', PStr ''Gift''),
                         (''amount'', PNum 7), (''description'', PStr [])]"
    by (simp add: gift_def)
  moreover from old [rule_format, of 0] R' have "a = dictionary salary" by simp
  then have "a = [(''date'', PStr ''2024-01-01''), (''category'', PStr Dohod),
                  (''amount'', PNum 100), (''description'', PStr ''salary'')]"
    by (simp add: dictionary_def salary_def)
  ultimately have "R' = [[(''date'', PStr ''2024-01-01''), (''category'', PStr Dohod),
               (''amount'', PNum 100), (''description'', PStr ''salary'')],
              [(''date'', PStr ''2024-01-03''), (''category'', PStr ''Gift''),
               (''amount'', PNum 7), (''description'', PStr [])]]"
    using R' by simp
  with h t rd show ?thesis by simp
qed

text \<open>C5: when the file holds \<open>R\<close> and \<open>i\<close> is negative or at least \<open>len(R)\<close>,
  \<^verbatim>\<open>update_record\<close> returns \<^verbatim>\<open>False\<close> without raising, writes nothing, and a
  read afterwards returns \<open>R\<close>.\<close>

theorem update_out_of_range:
  assumes "fst (read_file self fs) = Inr R" and "i < 0 \<or> int (length R) \<le> i"
  shows "update_record self i r fs = (Inr False, fs)
       \<and> fst (read_file self (snd (update_record self i r fs))) = Inr R"
proof -
  from assms(1) have rd: "read_file self fs = (Inr R, fs)" by (rule read_file_pair)
  from assms(2) have "\<not> (0 \<le> i \<and> i < int (length R))" by linarith
  with rd have "update_record self i r fs = (Inr False, fs)"
    by (simp add: update_record_def)
  with assms(1) show ?thesis by simp
qed

theorem update_out_of_range_witness:
  "fst (read_file (data_manager app) (ledger [dictionary salary, dictionary food]))
     = Inr [dictionary salary, dictionary food]
   \<and> update_record (data_manager app) 5 gift (ledger [dictionary salary, dictionary food])
       = (Inr False, ledger [dictionary salary, dictionary food])
   \<and> update_record (data_manager app) (- 1) gift (ledger [dictionary salary, dictionary food])
       = (Inr False, ledger [dictionary salary, dictionary food])"
proof -
  let ?fs = "ledger [dictionary salary, dictionary food]"
  have h: "fst (read_file (data_manager app) ?fs) = Inr [dictionary salary, dictionary food]"
    by (simp add: read_ledger is_dict_dictionary)
  have five: "(5::int) < 0 \<or> int (length [dictionary salary, dictionary food]) \<le> 5" by simp
  have minus: "(- 1::int) < 0 \<or> int (length [dictionary salary, dictionary food]) \<le> - 1"
    by simp
  from update_out_of_range [OF h five, of gift] update_out_of_range [OF h minus, of gift] h
  show ?thesis by simp
qed

section \<open>Searching\<close>

lemma getitem_present:
  "key \<in> fst ` set r \<Longrightarrow> \<exists>v. map_of r key = Some v \<and> getitem r key = Inr v"
  by (cases "map_of r key") (auto simp: getitem_def map_of_eq_None_iff)

lemma py_all_criteria:
  "\<forall>key \<in> fst ` set criteria. key \<in> fst ` set r \<Longrightarrow>
   py_all (criteria_items r criteria) = Inr (spec_matches criteria r)"
proof (induction criteria)
  case Nil
  show ?case by (simp add: criteria_items_def spec_matches_def)
next
  case (Cons kv criteria)
  obtain key val where kv: "kv = (key, val)" by (cases kv)
  from Cons.prems have "key \<in> fst ` set r" by (simp add: kv)
  then obtain v where v: "map_of r key = Some v" "getitem r key = Inr v"
    using getitem_present by blast
  from Cons.prems have "\<forall>key \<in> fst ` set criteria. key \<in> fst ` set r" by simp
  then have IH: "py_all (criteria_items r criteria) = Inr (spec_matches criteria r)"
    by (rule Cons.IH)
  have "criteria_items r (kv # criteria) = Inr (py_eq v val) # criteria_items r criteria"
    by (simp add: criteria_items_def kv v)
  moreover have "spec_matches (kv # criteria) r = (py_eq v val \<and> spec_matches criteria r)"
    by (simp add: spec_matches_def kv v)
  ultimately show ?case using IH by simp
qed

lemma search_loop_filter:
  "\<forall>r \<in> set records. \<forall>key \<in> fst ` set criteria. key \<in> fst ` set r \<Longrightarrow>
   search_loop criteria matching records = Inr (matching @ filter (spec_matches criteria) records)"
proof (induction records arbitrary: matching)
  case Nil
  show ?case by simp
next
  case (Cons r records)
  then have "py_all (criteria_items r criteria) = Inr (spec_matches criteria r)"
    by (simp add: py_all_criteria)
  with Cons show ?case by simp
qed

lemma py_all_matching_prefix:
  "spec_matches pre r \<Longrightarrow>
   py_all (criteria_items r (pre @ rest)) = py_all (criteria_items r rest)"
proof (induction pre)
  case Nil
  show ?case by simp
next
  case (Cons kv pre)
  obtain key val where kv: "kv = (key, val)" by (cases kv)
  from Cons.prems obtain v where v: "map_of r key = Some v" "py_eq v val"
    and rest: "spec_matches pre r"
    by (auto simp: spec_matches_def kv split: option.splits)
  from v have "criteria_items r ((kv # pre) @ rest) = Inr True # criteria_items r (pre @ rest)"
    by (simp add: criteria_items_def kv getitem_def)
  with Cons.IH [OF rest] show ?case by simp
qed

lemma py_eq_PStr: "py_eq (PStr s) (PStr t) = (s = t)"
  by (simp add: py_eq_def)


text \<open>C1: when the file holds \<open>records\<close> and every key of the criteria is a key of
  every record, \<^verbatim>\<open>search_records\<close> returns, in their order, exactly the records
  in which every key of the criteria has a value equal to the one asked for; with no
  criteria it returns all the records.\<close>

theorem search_is_filter:
  assumes "fst (read_file self fs) = Inr records"
    and "\<forall>r \<in> set records. \<forall>key \<in> fst ` set criteria. key \<in> fst ` set r"
  shows "search_records self criteria fs = (Inr (filter (spec_matches criteria) records), fs)
       \<and> search_records self [] fs = (Inr records, fs)"
proof -
  from assms(1) have rd: "read_file self fs = (Inr records, fs)" by (rule read_file_pair)
  have "search_loop criteria [] records = Inr ([] @ filter (spec_matches criteria) records)"
    using assms(2) by (rule search_loop_filter)
  then have one:
    "search_records self criteria fs = (Inr (filter (spec_matches criteria) records), fs)"
    by (simp add: search_records_def rd)
  have "search_loop [] [] records = Inr ([] @ filter (spec_matches []) records)"
    by (rule search_loop_filter) simp
  then have two: "search_records self [] fs = (Inr records, fs)"
    by (simp add: search_records_def rd spec_matches_def)
  from one two show ?thesis by simp
qed

theorem search_is_filter_witness:
  "fst (read_file (data_manager app) (ledger [dictionary salary, dictionary food]))
     = Inr [dictionary salary, dictionary food]
   \<and> search_records (data_manager app)
        [(''date'', PStr ''2024-01-01''), (''category'', PStr Dohod)]
        (ledger [dictionary salary, dictionary food])
       = (Inr [dictionary salary], ledger [dictionary salary, dictionary food])
   \<and> search_records (data_manager app) [] (ledger [dictionary salary, dictionary food])
       = (Inr [dictionary salary, dictionary food], ledger [dictionary salary, dictionary food])"
proof -
  let ?fs = "ledger [dictionary salary, dictionary food]"
  let ?criteria = "[(''date'', PStr ''2024-01-01''), (''category'', PStr Dohod)]"
  have h: "fst (read_file (data_manager app) ?fs) = Inr [dictionary salary, dictionary food]"
    by (simp add: read_ledger is_dict_dictionary)
  have keys: "\<forall>r \<in> set [dictionary salary, dictionary food].
                \<forall>key \<in> fst ` set ?criteria. key \<in> fst ` set r"
    by (simp add: dictionary_def)
  have yes: "spec_matches ?criteria (dictionary salary)"
    by (simp add: spec_matches_def dictionary_def salary_def py_eq_PStr)
  have no: "\<not> spec_matches ?criteria (dictionary food)"
    by (simp add: spec_matches_def dictionary_def food_def py_eq_PStr)
  from search_is_filter [OF h keys] h yes no show ?thesis by simp
qed

text \<open>C8: when the first record of the file lacks a key of the criteria, and the
  criteria before that key match the record, \<^verbatim>\<open>search_records\<close> raises
  \<^verbatim>\<open>KeyError\<close> for that key and returns no list.\<close>

theorem search_absent_key:
  assumes "fst (read_file self fs) = Inr (r # records)"
    and "spec_matches pre r" and "key \<notin> fst ` set r"
  shows "search_records self (pre @ (key, v) # post) fs = (Inl (KeyError key), fs)"
proof -
  from assms(1) have rd: "read_file self fs = (Inr (r # records), fs)" by (rule read_file_pair)
  from assms(3) have "map_of r key = None" by (simp add: map_of_eq_None_iff)
  then have "criteria_items r ((key, v) # post) = Inl (KeyError key) # criteria_items r post"
    by (simp add: criteria_items_def getitem_def)
  then have "py_all (criteria_items r ((key, v) # post)) = Inl (KeyError key)" by simp
  with assms(2) have "py_all (criteria_items r (pre @ (key, v) # post)) = Inl (KeyError key)"
    by (simp add: py_all_matching_prefix)
  then show ?thesis by (simp add: search_records_def rd)
qed

theorem search_absent_key_witness:
  "fst (read_file (data_manager app) (ledger [dictionary salary])) = Inr [dictionary salary]
   \<and> ''colour'' \<notin> fst ` set (dictionary salary)
   \<and> search_records (data_manager app)
        [(''date'', PStr ''2024-01-01''), (''colour'', PStr ''red'')]
        (ledger [dictionary salary])
       = (Inl (KeyError ''colour''), ledger [dictionary salary])"
proof -
  have h: "fst (read_file (data_manager app) (ledger [dictionary salary]))
      = Inr [dictionary salary]"
    by (simp add: read_ledger is_dict_dictionary)
  have pre: "spec_matches [(''date'', PStr ''2024-01-01'')] (dictionary salary)"
    by (simp add: spec_matches_def dictionary_def salary_def py_eq_PStr)
  have absent: "''colour'' \<notin> fst ` set (dictionary salary)"
    by (simp add: dictionary_def)
  from search_absent_key [OF h pre absent, of "PStr ''red''" "[]"] h absent
  show ?thesis by simp
qed

text \<open>C10: \<^verbatim>\<open>search_records\<close> leaves the file system as it found it, whatever the
  file holds and whatever the criteria are, so that a read after the search returns
  what a read before it returns.\<close>

theorem search_leaves_store:
  "snd (search_records self criteria fs) = fs
   \<and> read_file self (snd (search_records self criteria fs)) = read_file self fs"
proof -
  have "snd (search_records self criteria fs) = fs"
    using read_file_fs [of self fs]
    by (cases "read_file self fs") (auto simp: search_records_def split: sum.splits)
  then show ?thesis by simp
qed

section \<open>The balance\<close>





lemma amounts_where_skip:
  assumes "getitem r ''category'' = Inr v" and "\<not> py_eq v (PStr c)"
  shows "amounts_where c (xs @ r # ys) = amounts_where c (xs @ ys)"
  using assms by (simp add: amounts_where_def)






text \<open>C9: a record whose category is equal neither to the income value nor to the
  expense value yields no item of the income sum and none of the expense sum, and
  \<^verbatim>\<open>display_balance\<close> shows (or raises) what it shows (or raises) when the record
  is not in the file.\<close>

theorem other_category_ignored:
  assumes "fst (read_file (data_manager self) fs) = Inr (xs @ r # ys)"
    and "fst (read_file (data_manager self) fs') = Inr (xs @ ys)"
    and "getitem r ''category'' = Inr v"
    and "\<not> py_eq v (PStr Dohod)" and "\<not> py_eq v (PStr Rashod)"
  shows "amounts_where Dohod (xs @ r # ys) = amounts_where Dohod (xs @ ys)
       \<and> amounts_where Rashod (xs @ r # ys) = amounts_where Rashod (xs @ ys)
       \<and> fst (display_balance self fs) = fst (display_balance self fs')"
proof -
  have i: "amounts_where Dohod (xs @ r # ys) = amounts_where Dohod (xs @ ys)"
    using assms(3,4) by (rule amounts_where_skip)
  have e: "amounts_where Rashod (xs @ r # ys) = amounts_where Rashod (xs @ ys)"
    using assms(3,5) by (rule amounts_where_skip)
  from assms(1) have rd: "read_file (data_manager self) fs = (Inr (xs @ r # ys), fs)"
    by (rule read_file_pair)
  from assms(2) have rd': "read_file (data_manager self) fs' = (Inr (xs @ ys), fs')"
    by (rule read_file_pair)
  have "fst (display_balance self fs) = fst (display_balance self fs')"
    by (simp add: display_balance_def rd rd' i e split: sum.splits)
  with i e show ?thesis by simp
qed

theorem other_category_ignored_witness:
  "getitem (dictionary gift) ''category'' = Inr (PStr ''Gift'')
   \<and> \<not> py_eq (PStr ''Gift'') (PStr Dohod) \<and> \<not> py_eq (PStr ''Gift'') (PStr Rashod)
   \<and> fst (display_balance app (ledger [dictionary salary, dictionary gift, dictionary food]))
       = fst (display_balance app (ledger [dictionary salary, dictionary food]))"
proof -
  have h: "fst (read_file (data_manager app)
              (ledger ([dictionary salary] @ dictionary gift # [dictionary food])))
      = Inr ([dictionary salary] @ dictionary gift # [dictionary food])"
    by (simp add: read_ledger is_dict_dictionary)
  have h': "fst (read_file (data_manager app) (ledger ([dictionary salary] @ [dictionary food])))
      = Inr ([dictionary salary] @ [dictionary food])"
    by (simp add: read_ledger is_dict_dictionary)
  have c: "getitem (dictionary gift) ''category'' = Inr (PStr ''Gift'')"
    by (simp add: getitem_def dictionary_def gift_def)
  have i: "\<not> py_eq (PStr ''Gift'') (PStr Dohod)" by (simp add: py_eq_PStr Dohod_def)
  have e: "\<not> py_eq (PStr ''Gift'') (PStr Rashod)" by (simp add: py_eq_PStr Rashod_def)
  from other_category_ignored [OF h h' c i e] c i e show ?thesis by simp
qed

end
